theory Spec2Isabelle
  imports Complex_Main "HOL-Library.Multiset" "HOL-Library.Sublist" "HOL-Library.AList"
begin

section \<open>Numbers, rounding and the sources of nondeterminism\<close>

text \<open>
  JavaScript numbers are modelled by exact rationals (\<open>rat\<close>), and the values that are
  whole numbers in every run (head counts, capacities, room counts) by \<open>int\<close> and \<open>nat\<close>.
  Rounding of binary floating point is therefore not part of the model; the decimal
  rounding that the code asks for explicitly (\<open>toFixed\<close>) is. A double operation differs
  from the exact one by a relative error of at most \<open>2^-53\<close>, so a number that the code
  computes in a few operations agrees with the number computed here up to a relative
  error far below \<open>10^-9\<close>; where such a number is then rounded to decimals, the code
  and the model can disagree by one unit of the last decimal when the exact number is a
  tie. The statements below about the rounding of a computed number are therefore made
  with \<open>rounded_to\<close>, which holds of the code and of the model alike; equations are
  kept for sums of numbers that are already rounded to the same decimals, where no tie
  can arise.

  \<open>x.toFixed(d)\<close> followed by \<open>parseFloat\<close>: the sign is split off, and the magnitude is
  rounded to the nearest multiple of \<open>10^-d\<close>, the larger one on a tie.
\<close>

definition toFixed :: "nat \<Rightarrow> rat \<Rightarrow> rat" where
  "toFixed d x =
     (if x < 0 then - (of_int \<lfloor>- x * 10 ^ d + 1 / 2\<rfloor> / 10 ^ d)
      else of_int \<lfloor>x * 10 ^ d + 1 / 2\<rfloor> / 10 ^ d)"

text \<open>
  \<open>rounded_to d y x\<close>: the number \<open>y\<close> is the number \<open>x\<close> rounded to \<open>d\<close> decimals by
  floating-point code, that is, \<open>y\<close> lies within half a unit of the \<open>d\<close>-th decimal of
  \<open>x\<close>, up to a relative tolerance of \<open>10^-9\<close>.
\<close>

definition rounded_to :: "nat \<Rightarrow> rat \<Rightarrow> rat \<Rightarrow> bool" where
  "rounded_to d y x = (\<bar>y - x\<bar> \<le> 1 / (2 * 10 ^ d) + (\<bar>x\<bar> + 1) / 10 ^ 9)"

text \<open>
  Identifiers and the fixed words of the code (room and building identifiers, building
  names, levels) are ASCII and are \<open>string\<close>s. Free text (recommendations, anomalies,
  notes) is a JavaScript string: a list of UTF-16 code units, each a number. \<open>units\<close>
  turns an ASCII literal into code units; a character outside ASCII is written as its
  code units.
\<close>

type_synonym code_unit = nat

type_synonym jsstring = "code_unit list"

definition units :: "string \<Rightarrow> jsstring" where
  "units s = map of_char s"

text \<open>
  \<open>Math.random()\<close> is an effect: the sequence of numbers it returns is a parameter
  \<open>rnd\<close> of the model, and the number of calls made so far is threaded through every
  function that draws. \<open>random rnd i\<close> is the \<open>i\<close>-th call.
\<close>

type_synonym rng = "nat \<Rightarrow> rat"

definition random :: "rng \<Rightarrow> nat \<Rightarrow> rat \<times> nat" where
  "random rnd i = (rnd i, Suc i)"

text \<open>The contract of \<open>Math.random\<close>: every draw lies in \<open>[0, 1)\<close>.\<close>

definition unit_interval :: "rng \<Rightarrow> bool" where
  "unit_interval rnd = (\<forall>i. 0 \<le> rnd i \<and> rnd i < 1)"

text \<open>A sequence of draws that starts with the given ones and goes on with 0.5.\<close>

definition draws :: "rat list \<Rightarrow> rng" where
  "draws xs i = (if i < length xs then xs ! i else 1 / 2)"

section \<open>Demo-mode data generator\<close>

text \<open>
  The environmental parameters are an object whose properties may all be missing
  (\<open>envParams = {}\<close> by default); each is an \<open>option\<close>. Their types are those of the
  parameter reference of the API: integers and booleans.
\<close>

record EnvParams =
  avg_occupancy :: "int option"
  lights_on :: "bool option"
  ac_on :: "bool option"
  fans_on :: "bool option"
  computers_count :: "int option"
  outdoor_temperature :: "int option"

definition noEnvParams :: EnvParams where
  "noEnvParams = \<lparr>avg_occupancy = None, lights_on = None, ac_on = None, fans_on = None,
     computers_count = None, outdoor_temperature = None\<rparr>"

record RoomData =
  room_id :: string
  current_occupancy :: int
  capacity :: int
  occupancy_level :: string
  estimated_energy_kw :: rat
  estimated_water_lph :: rat
  estimated_co2_ppm :: int
  recommendations :: "jsstring list"
  anomalies :: "jsstring list"
  savings_potential :: rat

text \<open>\<open>getTimeBasedOccupancy\<close> reads the clock; the hour of the day is a parameter.\<close>

definition getTimeBasedOccupancy :: "nat \<Rightarrow> rat" where
  "getTimeBasedOccupancy hour =
     (if hour \<ge> 9 \<and> hour \<le> 17 then 7 / 10
      else if hour \<ge> 18 \<and> hour \<le> 22 then 4 / 10
      else 1 / 10)"

text \<open>
  The base load and, below, the building name are looked up in an object literal by the
  building identifier, with a default for an identifier that is not a key. The
  generator passes the five identifiers of \<open>buildingIds\<close> only; an identifier that names
  a member of every object (\<open>toString\<close>, \<open>constructor\<close>) would find that member
  instead of the default, and is outside the model.
\<close>

definition baseEnergy :: "string \<Rightarrow> rat" where
  "baseEnergy buildingId =
     (if buildingId = ''lib'' then 5 / 2
      else if buildingId = ''sci'' then 8
      else if buildingId = ''eng'' then 13 / 2
      else if buildingId = ''dorm'' then 3 / 2
      else if buildingId = ''cafe'' then 12
      else 3)"

text \<open>
  The multiplier of the base load: \<open>=== false\<close> holds for a flag that is present and
  false, a bare flag test for one that is present and true, and \<open>> 0\<close> for a count that
  is present and positive.
\<close>

definition energyMultiplier :: "EnvParams \<Rightarrow> rat \<Rightarrow> rat" where
  "energyMultiplier envParams occupancyPct =
     (let m0 = 3 / 10 + occupancyPct / 100 * (7 / 10);
          m1 = (if lights_on envParams = Some False then m0 * (7 / 10) else m0);
          m2 = (if ac_on envParams = Some False then m1 * (6 / 10) else m1);
          m3 = (if fans_on envParams = Some True then m2 * (11 / 10) else m2)
      in (case computers_count envParams of
            Some c \<Rightarrow> if c > 0 then m3 * (1 + of_int c * (5 / 100)) else m3
          | None \<Rightarrow> m3))"

text \<open>
  The third recommendation opens with the warning sign and its variation selector
  (\<open>U+26A0\<close>, \<open>U+FE0F\<close>).
\<close>

definition roomRecommendations :: "EnvParams \<Rightarrow> rat \<Rightarrow> rat \<Rightarrow> rat \<Rightarrow> jsstring list" where
  "roomRecommendations envParams occupancyPct energy r =
     (if occupancyPct < 20 \<and> energy > 2
        then [units ''Reduce HVAC - low occupancy'', units ''Auto-dim lights to 40%'']
        else []) @
     (if occupancyPct > 80
        then [units ''Increase ventilation'', units ''Monitor temperature closely'']
        else []) @
     (if (case outdoor_temperature envParams of Some t \<Rightarrow> t > 35 | None \<Rightarrow> False)
          \<and> ac_on envParams \<noteq> Some True
        then [[0x26A0, 0xFE0F] @ units '' High outdoor temp - consider enabling AC'']
        else []) @
     (if (case computers_count envParams of Some c \<Rightarrow> c > 10 | None \<Rightarrow> False)
        then [units ''High computer usage - monitor power load''] else []) @
     (if r > 7 / 10 then [units ''Schedule maintenance check''] else [])"

text \<open>
  \<open>generateMockRoomData\<close>. The draws are made in the order of the source: capacity,
  average occupancy (only when no override is given: \<open>||\<close> does not evaluate its right
  operand when the left one is truthy, that is present and non-zero), occupancy jitter,
  energy jitter, maintenance, water, savings.
\<close>

definition generateMockRoomData ::
  "nat \<Rightarrow> rng \<Rightarrow> string \<Rightarrow> string \<Rightarrow> EnvParams \<Rightarrow> nat \<Rightarrow> RoomData \<times> nat" where
  "generateMockRoomData hour rnd roomId buildingId envParams i0 =
     (let occupancyFactor = getTimeBasedOccupancy hour;
          (r1, i1) = random rnd i0;
          capacity = \<lfloor>r1 * 40\<rfloor> + 20;
          (avgOccupancy, i2) =
            (case avg_occupancy envParams of
               Some a \<Rightarrow>
                 if a \<noteq> 0 then (a, i1)
                 else (let (r2, j) = random rnd i1
                       in (\<lfloor>of_int capacity * occupancyFactor * (1 / 2 + r2 * (1 / 2))\<rfloor>, j))
             | None \<Rightarrow>
                 (let (r2, j) = random rnd i1
                  in (\<lfloor>of_int capacity * occupancyFactor * (1 / 2 + r2 * (1 / 2))\<rfloor>, j)));
          (r3, i3) = random rnd i2;
          occupancy = min (avgOccupancy + \<lfloor>r3 * 10 - 5\<rfloor>) capacity;
          occupancyPct = of_int occupancy / of_int capacity * 100;
          (r4, i4) = random rnd i3;
          energy = baseEnergy buildingId * energyMultiplier envParams occupancyPct
                     * (8 / 10 + r4 * (4 / 10));
          (r5, i5) = random rnd i4;
          (r6, i6) = random rnd i5;
          (r7, i7) = random rnd i6
      in (\<lparr>room_id = roomId,
           current_occupancy = occupancy,
           capacity = capacity,
           occupancy_level =
             (if occupancyPct > 70 then ''high''
              else if occupancyPct > 30 then ''medium'' else ''low''),
           estimated_energy_kw = toFixed 2 energy,
           estimated_water_lph = toFixed 1 (r6 * 5),
           estimated_co2_ppm = \<lfloor>400 + occupancyPct * 4\<rfloor>,
           recommendations = take 3 (roomRecommendations envParams occupancyPct energy r5),
           anomalies =
             (if occupancy = 0 \<and> energy > 2
              then [units ''Equipment running with no occupants''] else []),
           savings_potential = toFixed 1 (r7 * 30 + 10)\<rparr>, i7))"

subsection \<open>Building rollup\<close>

text \<open>Decimal rendering of a number inside a template string, and \<open>padStart(3, '0')\<close>.\<close>

fun showNat :: "nat \<Rightarrow> string" where
  "showNat n =
     (if n < 10 then [char_of (48 + n)]
      else showNat (n div 10) @ [char_of (48 + n mod 10)])"

declare showNat.simps [simp del]

definition showInt :: "int \<Rightarrow> string" where
  "showInt k = (if k < 0 then CHR ''-'' # showNat (nat (- k)) else showNat (nat k))"

definition padStart :: "nat \<Rightarrow> char \<Rightarrow> string \<Rightarrow> string" where
  "padStart n c s = replicate (n - length s) c @ s"

definition mkRoomId :: "string \<Rightarrow> nat \<Rightarrow> string" where
  "mkRoomId buildingId i = buildingId @ ''-'' @ padStart 3 CHR ''0'' (showNat i)"

text \<open>
  \<open>toUpperCase\<close> on the letters \<open>a\<close> to \<open>z\<close>; building identifiers are ASCII.
\<close>

definition toUpperCase :: "string \<Rightarrow> string" where
  "toUpperCase s =
     map (\<lambda>c. let n = (of_char c :: nat)
              in if 97 \<le> n \<and> n \<le> 122 then char_of (n - 32) else c) s"

definition buildingNames :: "string \<Rightarrow> string option" where
  "buildingNames k =
     (if k = ''lib'' then Some ''Central Library''
      else if k = ''sci'' then Some ''Science Hall''
      else if k = ''eng'' then Some ''Engineering Building''
      else if k = ''dorm'' then Some ''Student Dormitory''
      else if k = ''cafe'' then Some ''Student Center''
      else None)"

text \<open>
  The returned objects are records. A property name that occurs in more than one kind
  of object carries a prefix in all but the first: \<open>recommendations\<close> and
  \<open>savings_potential\<close> of a building are \<open>building_recommendations\<close> and
  \<open>building_savings_potential\<close>, the properties of a critical-building entry start
  with \<open>cb_\<close>, and the totals and the rate of the campus metrics with \<open>campus_\<close>.
\<close>

record BuildingData =
  building_id :: string
  building_name :: string
  total_rooms :: int
  total_energy_kw :: rat
  total_occupancy :: int
  total_capacity :: int
  occupancy_rate :: rat
  avg_energy_per_room :: rat
  building_recommendations :: "jsstring list"
  building_savings_potential :: rat
  room_states :: "(string \<times> RoomData) list"

text \<open>
  An object used as a dictionary is an association list in insertion order;
  \<open>obj[k] = v\<close> is \<open>AList.update k v\<close> (overwrite in place, or append), and
  \<open>Object.values\<close> is \<open>map snd\<close>.

  The loop \<open>for (let i = 1; i <= numRooms; i++)\<close>: \<open>k\<close> counts the iterations left.
\<close>

fun genRooms ::
  "nat \<Rightarrow> rng \<Rightarrow> string \<Rightarrow> EnvParams \<Rightarrow> nat \<Rightarrow> nat \<Rightarrow>
     (string \<times> RoomData) list \<Rightarrow> nat \<Rightarrow> (string \<times> RoomData) list \<times> nat" where
  "genRooms hour rnd buildingId envParams 0 i rooms p = (rooms, p)"
| "genRooms hour rnd buildingId envParams (Suc k) i rooms p =
     (let roomId = mkRoomId buildingId i;
          (room, p') = generateMockRoomData hour rnd roomId buildingId envParams p
      in genRooms hour rnd buildingId envParams k (Suc i) (AList.update roomId room rooms) p')"

text \<open>
  The rollup proper (everything after the loop), as a function of the rooms object, the
  room count and the two draws that follow. \<open>reduce\<close> is a left fold from \<open>0\<close>.
  The arrow in the first recommendation is \<open>U+2192\<close>.
  \<open>avg_energy_per_room\<close> divides by \<open>numRooms\<close>, which is at least 8 in every run.
\<close>

definition buildingSummary ::
  "string \<Rightarrow> int \<Rightarrow> (string \<times> RoomData) list \<Rightarrow> rat \<Rightarrow> rat \<Rightarrow> BuildingData" where
  "buildingSummary buildingId numRooms rooms rRec rSav =
     (let totalEnergy = foldl (\<lambda>sum r. sum + estimated_energy_kw r) 0 (map snd rooms);
          totalOccupancy = foldl (\<lambda>sum r. sum + current_occupancy r) 0 (map snd rooms);
          totalCapacity = foldl (\<lambda>sum r. sum + capacity r) 0 (map snd rooms);
          occupancyRate =
            (if totalCapacity > 0
             then of_int totalOccupancy / of_int totalCapacity * 100 else 0);
          buildingRecs =
            [units ''Close floors with <20% occupancy '' @ [0x2192]
               @ units '' Save '' @ units (showInt \<lfloor>rRec * 15 + 10\<rfloor>) @ units '' kW'',
             units ''Enable smart HVAC scheduling'',
             units ''Consolidate activities to fewer zones'',
             units ''Implement demand-based lighting'']
      in \<lparr>building_id = buildingId,
          building_name =
            (case buildingNames buildingId of
               Some n \<Rightarrow> if n \<noteq> [] then n else toUpperCase buildingId
             | None \<Rightarrow> toUpperCase buildingId),
          total_rooms = numRooms,
          total_energy_kw = toFixed 2 totalEnergy,
          total_occupancy = totalOccupancy,
          total_capacity = totalCapacity,
          occupancy_rate = toFixed 1 occupancyRate,
          avg_energy_per_room = toFixed 2 (totalEnergy / of_int numRooms),
          building_recommendations = take 3 buildingRecs,
          building_savings_potential = toFixed 1 (rSav * 20 + 15),
          room_states = rooms\<rparr>)"

definition generateMockBuildingData ::
  "nat \<Rightarrow> rng \<Rightarrow> string \<Rightarrow> EnvParams \<Rightarrow> nat \<Rightarrow> BuildingData \<times> nat" where
  "generateMockBuildingData hour rnd buildingId envParams p0 =
     (let (r1, p1) = random rnd p0;
          numRooms = \<lfloor>r1 * 8\<rfloor> + 8;
          (rooms, p2) = genRooms hour rnd buildingId envParams (nat numRooms) 1 [] p1;
          (rRec, p3) = random rnd p2;
          (rSav, p4) = random rnd p3
      in (buildingSummary buildingId numRooms rooms rRec rSav, p4))"

text \<open>
  The numeric properties of the object that \<open>generateMockBuildingData\<close> returns, by key,
  in the order of the object literal. Reading any other key of the object gives
  \<open>undefined\<close> or a non-number.
\<close>

definition buildingNumbers :: "BuildingData \<Rightarrow> (string \<times> rat) list" where
  "buildingNumbers b =
     [(''total_rooms'', of_int (total_rooms b)),
      (''total_energy_kw'', total_energy_kw b),
      (''total_occupancy'', of_int (total_occupancy b)),
      (''total_capacity'', of_int (total_capacity b)),
      (''occupancy_rate'', occupancy_rate b),
      (''avg_energy_per_room'', avg_energy_per_room b),
      (''savings_potential'', building_savings_potential b)]"

subsection \<open>Campus rollup\<close>

record CriticalBuilding =
  cb_building_id :: string
  cb_building_name :: string
  cb_energy_kw :: rat
  cb_occupancy_rate :: rat
  cb_reason :: string

record CampusMetrics =
  campus_total_energy_kw :: rat
  campus_total_water_lph :: rat
  campus_total_occupancy :: int
  campus_total_capacity :: int
  total_buildings :: nat
  campus_total_rooms :: int
  campus_occupancy_rate :: rat
  avg_occupancy_rate :: rat
  estimated_cost_per_hour :: rat
  potential_savings_percent :: rat

record SavingsPotential =
  total_kwh_saved :: rat
  estimated_cost_savings_hourly :: rat

record CampusAnalysis =
  timestamp :: string
  campus_name :: string
  campus_metrics :: CampusMetrics
  campus_savings_potential :: SavingsPotential
  building_states :: "(string \<times> BuildingData) list"
  campus_recommendations :: "jsstring list"
  critical_buildings :: "CriticalBuilding list"
  analysis_type :: string
  campus_note :: jsstring

definition buildingIds :: "string list" where
  "buildingIds = [''lib'', ''sci'', ''eng'', ''dorm'', ''cafe'']"

text \<open>\<open>buildingIds.forEach(id => { buildings[id] = generateMockBuildingData(id, envParams) })\<close>\<close>

fun genBuildings ::
  "nat \<Rightarrow> rng \<Rightarrow> EnvParams \<Rightarrow> string list \<Rightarrow> (string \<times> BuildingData) list \<Rightarrow> nat \<Rightarrow>
     (string \<times> BuildingData) list \<times> nat" where
  "genBuildings hour rnd envParams [] buildings p = (buildings, p)"
| "genBuildings hour rnd envParams (bid # ids) buildings p =
     (let (b, p') = generateMockBuildingData hour rnd bid envParams p
      in genBuildings hour rnd envParams ids (AList.update bid b buildings) p')"

text \<open>The campus recommendations open with pictographs, two code units each.\<close>

definition campusRecs :: "jsstring list" where
  "campusRecs =
     [[0xD83C, 0xDFE2]
        @ units '' Peak energy demand 2-6 PM across Science & Engineering'',
      [0xD83D, 0xDCA1]
        @ units '' Smart grid implementation: 20-25% reduction potential'',
      [0xD83C, 0xDF21, 0xFE0F]
        @ units '' HVAC optimization: 30% of total savings opportunity'',
      [0xD83D, 0xDCCA]
        @ units '' Consolidate after-hours classes: reduce active spaces 40%'',
      [0xD83C, 0xDFAF]
        @ units '' Priority: Science Hall highest savings (28%)'',
      [0xD83D, 0xDCA7]
        @ units '' Water conservation in dorms & cafeteria recommended'']"

definition criticalBuildings :: "BuildingData list \<Rightarrow> CriticalBuilding list" where
  "criticalBuildings bs =
     map (\<lambda>b. \<lparr>cb_building_id = building_id b,
               cb_building_name = building_name b,
               cb_energy_kw = total_energy_kw b,
               cb_occupancy_rate = occupancy_rate b,
               cb_reason = ''High energy consumption''\<rparr>)
         (filter (\<lambda>b. total_energy_kw b > 50) bs)"

text \<open>
  The campus rollup proper, as a function of the buildings object, the two draws that
  follow the generation of the buildings, and the clock reading.
\<close>

definition campusSummary ::
  "string \<Rightarrow> (string \<times> BuildingData) list \<Rightarrow> rat \<Rightarrow> rat \<Rightarrow> CampusAnalysis" where
  "campusSummary now buildings rWater rSav =
     (let bs = map snd buildings;
          totalEnergy = foldl (\<lambda>sum b. sum + total_energy_kw b) 0 bs;
          totalOccupancy = foldl (\<lambda>sum b. sum + total_occupancy b) 0 bs;
          totalCapacity = foldl (\<lambda>sum b. sum + total_capacity b) 0 bs;
          totalWater = toFixed 1 (rWater * 150 + 100);
          avgOccupancyRate =
            foldl (\<lambda>sum b. sum + occupancy_rate b) 0 bs / of_nat (length buildingIds)
      in \<lparr>timestamp = now,
          campus_name = ''Demo University Campus'',
          campus_metrics =
            \<lparr>campus_total_energy_kw = toFixed 2 totalEnergy,
             campus_total_water_lph = totalWater,
             campus_total_occupancy = totalOccupancy,
             campus_total_capacity = totalCapacity,
             total_buildings = length buildingIds,
             campus_total_rooms = foldl (\<lambda>sum b. sum + total_rooms b) 0 bs,
             campus_occupancy_rate = toFixed 1 avgOccupancyRate,
             avg_occupancy_rate = toFixed 1 avgOccupancyRate,
             estimated_cost_per_hour =
               toFixed 2 (totalEnergy * (12 / 100) + totalWater * (2 / 1000)),
             potential_savings_percent = toFixed 1 (rSav * 15 + 18)\<rparr>,
          campus_savings_potential =
            \<lparr>total_kwh_saved = toFixed 2 (totalEnergy * (25 / 100)),
             estimated_cost_savings_hourly =
               toFixed 2 (totalEnergy * (25 / 100) * (12 / 100))\<rparr>,
          building_states = buildings,
          campus_recommendations = campusRecs,
          critical_buildings = criticalBuildings bs,
          analysis_type = ''FRONTEND_SIMULATION'',
          campus_note = [0x26A0, 0xFE0F]
            @ units '' Demo mode - Backend unavailable. Showing simulated data.''\<rparr>)"

definition generateMockCampusAnalysis ::
  "nat \<Rightarrow> string \<Rightarrow> rng \<Rightarrow> EnvParams \<Rightarrow> CampusAnalysis" where
  "generateMockCampusAnalysis hour now rnd envParams =
     (let (buildings, p1) = genBuildings hour rnd envParams buildingIds [] 0;
          (rWater, p2) = random rnd p1;
          (rSav, p3) = random rnd p2
      in campusSummary now buildings rWater rSav)"

text \<open>
  What the energy model is claimed to be: the base load times an intensity factor that
  starts at \<open>0.3 + 0.7 \<times> ratio\<close> and is multiplied by \<open>0.6\<close> when the AC is off, by
  \<open>0.7\<close> when the lights are off and by \<open>1 + 0.05 \<times> count\<close> for running computers.
  This definition follows the wording of the claim; \<open>energyMultiplier\<close> above is the code.
\<close>

definition claimed_intensity_factor :: "EnvParams \<Rightarrow> rat \<Rightarrow> rat" where
  "claimed_intensity_factor envParams ratio =
     (3 / 10 + 7 / 10 * ratio)
       * (if ac_on envParams = Some False then 6 / 10 else 1)
       * (if lights_on envParams = Some False then 7 / 10 else 1)
       * (case computers_count envParams of
            Some c \<Rightarrow> if c > 0 then 1 + 5 / 100 * of_int c else 1
          | None \<Rightarrow> 1)"

section \<open>Room analysis page\<close>

text \<open>
  \<open>getOccupancyLevel\<close> of the room analysis page recomputes the level from the two
  numbers of a room; \<open>!capacity\<close> holds for a capacity of zero.
\<close>

definition getOccupancyLevel :: "rat \<Rightarrow> rat \<Rightarrow> string" where
  "getOccupancyLevel occupancy cap =
     (if cap = 0 then ''unknown''
      else let percentage = (occupancy / cap) * 100
           in if percentage \<ge> 70 then ''high''
              else if percentage \<ge> 30 then ''medium''
              else ''low'')"

section \<open>Recommendation filter of the dashboard components\<close>

text \<open>
  The recommendations are JavaScript strings, lists of UTF-16 code units; \<open>length\<close>
  counts code units.

  \<open>toLowerCase\<close> maps \<open>A\<close> to \<open>Z\<close> to \<open>a\<close> to \<open>z\<close> and leaves every other ASCII
  character alone; on a string with a code unit outside ASCII it applies the case
  mapping of Unicode, a table of the language runtime that is not in the sources and is
  the parameter \<open>unicodeLower\<close> here.

  \<open>trim\<close> removes white space and line terminators at both ends: tab, line feed,
  vertical tab, form feed, carriage return, space, no-break space, the other space
  separators of Unicode (\<open>U+1680\<close>, \<open>U+2000\<close> to \<open>U+200A\<close>, \<open>U+202F\<close>, \<open>U+205F\<close>,
  \<open>U+3000\<close>), line and paragraph separator, and the byte order mark.

  \<open>s.includes(t)\<close> holds when \<open>t\<close> occurs in \<open>s\<close> as a contiguous block.
\<close>

definition asciiLower :: "code_unit \<Rightarrow> code_unit" where
  "asciiLower u = (if 65 \<le> u \<and> u \<le> 90 then u + 32 else u)"

definition toLowerCase :: "(jsstring \<Rightarrow> jsstring) \<Rightarrow> jsstring \<Rightarrow> jsstring" where
  "toLowerCase unicodeLower s =
     (if list_all (\<lambda>u. u < 128) s then map asciiLower s else unicodeLower s)"

definition isWhiteSpace :: "code_unit \<Rightarrow> bool" where
  "isWhiteSpace u =
     (u \<in> {0x0009, 0x000A, 0x000B, 0x000C, 0x000D, 0x0020, 0x00A0, 0x1680,
            0x2028, 0x2029, 0x202F, 0x205F, 0x3000, 0xFEFF}
      \<or> (0x2000 \<le> u \<and> u \<le> 0x200A))"

definition trim :: "jsstring \<Rightarrow> jsstring" where
  "trim s = rev (dropWhile isWhiteSpace (rev (dropWhile isWhiteSpace s)))"

fun str_includes :: "'a list \<Rightarrow> 'a list \<Rightarrow> bool" where
  "str_includes [] t = (t = [])"
| "str_includes (c # s) t = (prefix t (c # s) \<or> str_includes s t)"

text \<open>
  The predicate passed to \<open>filter\<close> in the building card and in the room detail view
  (the same text in both), and the one of the recommendation panel.
\<close>

definition cardRecFilter :: "(jsstring \<Rightarrow> jsstring) \<Rightarrow> jsstring \<Rightarrow> bool" where
  "cardRecFilter unicodeLower rec =
     (let text = toLowerCase unicodeLower rec
      in \<not> str_includes text (units ''no immediate'') \<and>
         \<not> str_includes text (units ''operating efficiently'') \<and>
         length (trim rec) > 10)"

definition panelRecFilter :: "(jsstring \<Rightarrow> jsstring) \<Rightarrow> jsstring \<Rightarrow> bool" where
  "panelRecFilter unicodeLower rec =
     (let text = toLowerCase unicodeLower rec
      in \<not> str_includes text (units ''no immediate actions'') \<and>
         \<not> str_includes text (units ''operating efficiently'') \<and>
         \<not> str_includes text (units ''monitor'') \<and>
         length (trim rec) > 10)"

text \<open>
  What each component shows. The building card reads \<open>recommendations\<close>, else
  \<open>building_recommendations\<close>, else the empty list (a missing property is \<open>None\<close>; an
  array is truthy even when empty), and shows the first two survivors. The room detail
  view shows all survivors. The panel shows the first five, and nothing at all when
  there is none.
\<close>

definition buildingCardRecs ::
  "(jsstring \<Rightarrow> jsstring) \<Rightarrow> jsstring list option \<Rightarrow> jsstring list option \<Rightarrow> jsstring list" where
  "buildingCardRecs unicodeLower recs building_recs =
     take 2 (filter (cardRecFilter unicodeLower)
       (case recs of Some r \<Rightarrow> r
        | None \<Rightarrow> (case building_recs of Some r \<Rightarrow> r | None \<Rightarrow> [])))"

definition roomDetailRecs :: "(jsstring \<Rightarrow> jsstring) \<Rightarrow> jsstring list \<Rightarrow> jsstring list" where
  "roomDetailRecs unicodeLower recs = filter (cardRecFilter unicodeLower) recs"

definition recommendationPanelRecs ::
  "(jsstring \<Rightarrow> jsstring) \<Rightarrow> jsstring list \<Rightarrow> jsstring list" where
  "recommendationPanelRecs unicodeLower recs = take 5 (filter (panelRecFilter unicodeLower) recs)"

section \<open>Budget-gated recommender\<close>

text \<open>
  The recommender runs on the server, whose code is not part of the sources at hand
  (only the dashboard that sends \<open>budget_level\<close> and displays the result is). Its
  definitions below are written from the design description.
\<close>

datatype budget_level = BudgetLow | BudgetMedium | BudgetHigh

datatype entity = Campus | Building string | Room string

text \<open>
  Modelled from the spec: \<open>budget_to_call_count\<close>, the server-side table of calls per
  budget level. The low tier is 3 calls; the medium and high tiers are only said to be
  larger, and are parameters.
\<close>

fun budget_to_call_count :: "nat \<Rightarrow> nat \<Rightarrow> budget_level \<Rightarrow> nat" where
  "budget_to_call_count medium high BudgetLow = 3"
| "budget_to_call_count medium high BudgetMedium = medium"
| "budget_to_call_count medium high BudgetHigh = high"

text \<open>
  Modelled from the spec: the priority order of the server-side recommender. Campus
  first, then the critical buildings, then the remaining buildings, then the rooms of
  the critical buildings.
\<close>

definition priority_order :: "string list \<Rightarrow> string list \<Rightarrow> string list \<Rightarrow> entity list" where
  "priority_order critical_ids other_ids critical_room_ids =
     Campus # map Building critical_ids @ map Building other_ids @ map Room critical_room_ids"

text \<open>
  Modelled from the spec: the post-filter of the server-side recommender. It drops the
  strings under the 10-character floor and those matching the boilerplate, which is a
  parameter.
\<close>

definition post_filter :: "(string \<Rightarrow> bool) \<Rightarrow> string list \<Rightarrow> string list" where
  "post_filter boilerplate recs = filter (\<lambda>s. \<not> (length s < 10 \<or> boilerplate s)) recs"

record recommender_state =
  tokens_remaining :: nat
  calls :: "entity list"
  results :: "(entity \<times> string list) list"

text \<open>
  Modelled from the spec: one step of the server-side recommender. The external call
  \<open>summarize\<close> returns \<open>None\<close> when it raises or times out. While tokens remain, one call
  is attempted and one token is consumed whether it succeeds or fails; a failure gives
  the empty list. Without tokens no call is made and the entity gets the empty list.
\<close>

definition recommend_step ::
  "(entity \<Rightarrow> string list option) \<Rightarrow> (string \<Rightarrow> bool) \<Rightarrow>
     recommender_state \<Rightarrow> entity \<Rightarrow> recommender_state" where
  "recommend_step summarize boilerplate st e =
     (if tokens_remaining st > 0
      then \<lparr>tokens_remaining = tokens_remaining st - 1,
            calls = calls st @ [e],
            results = results st @
              [(e, case summarize e of
                     Some recs \<Rightarrow> post_filter boilerplate recs
                   | None \<Rightarrow> [])]\<rparr>
      else st\<lparr>results := results st @ [(e, [])]\<rparr>)"

text \<open>
  Modelled from the spec: a run of the server-side recommender over the entities in
  priority order, starting from the call count of the budget level.
\<close>

definition run_recommender ::
  "nat \<Rightarrow> nat \<Rightarrow> budget_level \<Rightarrow> (entity \<Rightarrow> string list option) \<Rightarrow> (string \<Rightarrow> bool) \<Rightarrow>
     entity list \<Rightarrow> recommender_state" where
  "run_recommender medium high level summarize boilerplate es =
     foldl (recommend_step summarize boilerplate)
       \<lparr>tokens_remaining = budget_to_call_count medium high level, calls = [], results = []\<rparr>
       es"

section \<open>Example data\<close>

text \<open>
  The building of the end-to-end scenario: Science Hall with two rooms, capacities 30 and
  40, occupancies 25 and 5.
\<close>

definition scenario_rooms :: "(string \<times> RoomData) list" where
  "scenario_rooms =
     [(''sci-001'',
       \<lparr>room_id = ''sci-001'', current_occupancy = 25, capacity = 30,
        occupancy_level = ''high'', estimated_energy_kw = 707 / 100,
        estimated_water_lph = 15 / 10, estimated_co2_ppm = 733, recommendations = [],
        anomalies = [], savings_potential = 25\<rparr>),
      (''sci-002'',
       \<lparr>room_id = ''sci-002'', current_occupancy = 5, capacity = 40,
        occupancy_level = ''low'', estimated_energy_kw = 31 / 10,
        estimated_water_lph = 26 / 10, estimated_co2_ppm = 450, recommendations = [],
        anomalies = [], savings_potential = 25\<rparr>)]"

text \<open>
  A room of the given head count, capacity and energy estimate, and a campus of five
  buildings of one such room each, for the examples of the campus rollup.
\<close>

definition example_room :: "string \<Rightarrow> int \<Rightarrow> int \<Rightarrow> rat \<Rightarrow> string \<times> RoomData" where
  "example_room rid occ cap energy =
     (rid, \<lparr>room_id = rid, current_occupancy = occ, capacity = cap,
            occupancy_level =
              (if of_int occ / of_int cap * (100 :: rat) > 70 then ''high''
               else if of_int occ / of_int cap * (100 :: rat) > 30 then ''medium''
               else ''low''),
            estimated_energy_kw = energy,
            estimated_water_lph = 2, estimated_co2_ppm = 500, recommendations = [],
            anomalies = [], savings_potential = 25\<rparr>)"

definition example_buildings :: "(string \<times> BuildingData) list" where
  "example_buildings =
     [(''lib'', buildingSummary ''lib'' 1 [example_room ''lib-001'' 10 100 (3 / 2)] (1 / 2) (1 / 2)),
      (''sci'', buildingSummary ''sci'' 1 [example_room ''sci-001'' 20 20 60] (1 / 2) (1 / 2)),
      (''eng'', buildingSummary ''eng'' 1 [example_room ''eng-001'' 20 20 (13 / 2)] (1 / 2) (1 / 2)),
      (''dorm'', buildingSummary ''dorm'' 1 [example_room ''dorm-001'' 20 20 (3 / 2)] (1 / 2) (1 / 2)),
      (''cafe'', buildingSummary ''cafe'' 1 [example_room ''cafe-001'' 20 20 12] (1 / 2) (1 / 2))]"

text \<open>
  Rooms made by the generator without environmental parameters: two at noon, from the
  draws 0.5, 0.95, 0.6 and 0.5, 0, 0.3 (and 0.5 from then on), and one at two o'clock at
  night, from the draws 0.13, 0.3, 0.2. One more with the fans on, every draw 0.9.
\<close>

definition boundary_room_70 :: RoomData where
  "boundary_room_70 =
     fst (generateMockRoomData 12 (draws [1 / 2, 95 / 100, 6 / 10]) ''sci-001'' ''sci''
            noEnvParams 0)"

definition boundary_room_30 :: RoomData where
  "boundary_room_30 =
     fst (generateMockRoomData 12 (draws [1 / 2, 0, 3 / 10]) ''sci-001'' ''sci''
            noEnvParams 0)"

definition night_room :: RoomData where
  "night_room =
     fst (generateMockRoomData 2 (draws [13 / 100, 3 / 10, 2 / 10]) ''sci-001'' ''sci''
            noEnvParams 0)"

definition fans_env :: EnvParams where
  "fans_env = noEnvParams\<lparr>fans_on := Some True\<rparr>"

definition fans_room :: RoomData where
  "fans_room = fst (generateMockRoomData 12 (\<lambda>_. 9 / 10) ''sci-001'' ''sci'' fans_env 0)"

text \<open>
  The entities of the budget exhaustion scenario, in priority order: the campus, a
  critical and a remaining building, and the ten rooms of the critical building. The
  call for the campus fails; every other call returns one recommendation and one
  fragment.
\<close>

definition scenario_entities :: "entity list" where
  "scenario_entities =
     priority_order [''sci''] [''lib'']
       [''sci-001'', ''sci-002'', ''sci-003'', ''sci-004'', ''sci-005'',
        ''sci-006'', ''sci-007'', ''sci-008'', ''sci-009'', ''sci-010'']"

definition scenario_summarize :: "entity \<Rightarrow> string list option" where
  "scenario_summarize e =
     (if e = Campus then None else Some [''Reduce HVAC - low occupancy'', ''ok''])"

definition scenario_boilerplate :: "string \<Rightarrow> bool" where
  "scenario_boilerplate s = str_includes s ''no action needed''"

section \<open>Auxiliary facts\<close>

lemma foldl_add_sum_list:
  fixes f :: "'a \<Rightarrow> 'b::comm_monoid_add"
  shows "foldl (\<lambda>sum r. sum + f r) a xs = a + sum_list (map f xs)"
  by (induction xs arbitrary: a) (simp_all add: add.assoc)

lemma sum_list_map_mset_cong:
  fixes f :: "'a \<Rightarrow> 'b::comm_monoid_add"
  assumes "mset xs = mset ys"
  shows "sum_list (map f xs) = sum_list (map f ys)"
proof -
  have "sum_list (map f xs) = sum_mset (image_mset f (mset xs))"
    by (metis mset_map sum_mset_sum_list)
  also have "\<dots> = sum_mset (image_mset f (mset ys))"
    by (simp add: assms)
  also have "\<dots> = sum_list (map f ys)"
    by (metis mset_map sum_mset_sum_list)
  finally show ?thesis .
qed

text \<open>The floor of a quotient of numerals, for the evaluation of concrete runs.\<close>

lemma floor_rat_numeral_div: "\<lfloor>numeral a / numeral b :: rat\<rfloor> = numeral a div numeral b"
  by (metis floor_divide_of_int_eq of_int_numeral)

lemma floor_rat_neg_numeral_div:
  "\<lfloor>- (numeral a / numeral b) :: rat\<rfloor> = - numeral a div numeral b"
  by (metis divide_minus_left floor_divide_of_int_eq of_int_neg_numeral of_int_numeral)

lemma floor_rat_one_div: "\<lfloor>1 / numeral b :: rat\<rfloor> = 1 div numeral b"
  by (metis floor_divide_of_int_eq of_int_1 of_int_numeral)

lemma floor_rat_neg_one_div: "\<lfloor>- (1 / numeral b) :: rat\<rfloor> = - 1 div numeral b"
  by (metis divide_minus_left floor_divide_of_int_eq of_int_1 of_int_minus of_int_numeral)

lemmas floor_rat_simps =
  floor_rat_numeral_div floor_rat_neg_numeral_div floor_rat_one_div floor_rat_neg_one_div

text \<open>Rounding to \<open>d\<close> decimals leaves a multiple of \<open>10^-d\<close> alone.\<close>

lemma toFixed_of_multiple: "toFixed d (of_int k / 10 ^ d) = of_int k / 10 ^ d"
proof -
  have f: "\<lfloor>(of_int m :: rat) + 1 / 2\<rfloor> = m" for m :: int
    by (simp add: floor_unique)
  show ?thesis
  proof (cases "k < 0")
    case True
    then have "(of_int k :: rat) / 10 ^ d < 0"
      by (simp add: divide_neg_pos)
    moreover have "- (of_int k / 10 ^ d) * 10 ^ d + 1 / 2 = (of_int (- k) :: rat) + 1 / 2"
      by simp
    ultimately show ?thesis
      unfolding toFixed_def using f [of "- k"] by (simp del: of_int_minus)
  next
    case False
    then have "\<not> (of_int k :: rat) / 10 ^ d < 0"
      by (simp add: divide_less_0_iff)
    then show ?thesis
      unfolding toFixed_def using f [of k] by simp
  qed
qed

lemma toFixed_zero: "toFixed d 0 = 0"
  using toFixed_of_multiple [of d 0] by simp

text \<open>Rounding to \<open>d\<close> decimals moves a number by at most half a unit of the last place.\<close>

lemma toFixed_error: "\<bar>toFixed d x - x\<bar> \<le> 1 / (2 * 10 ^ d)"
proof -
  have r: "\<bar>of_int \<lfloor>y + 1 / 2\<rfloor> - y\<bar> \<le> 1 / 2" for y :: rat
    by linarith
  have s: "\<bar>of_int \<lfloor>y * 10 ^ d + 1 / 2\<rfloor> / 10 ^ d - y\<bar> \<le> 1 / (2 * 10 ^ d)" for y :: rat
  proof -
    have "\<bar>of_int \<lfloor>y * 10 ^ d + 1 / 2\<rfloor> / 10 ^ d - y\<bar>
            = \<bar>of_int \<lfloor>y * 10 ^ d + 1 / 2\<rfloor> - y * 10 ^ d\<bar> / 10 ^ d"
      by (simp add: field_simps abs_divide flip: abs_mult)
    also have "\<dots> \<le> (1 / 2) / 10 ^ d"
      by (rule divide_right_mono [OF r]) simp
    finally show ?thesis by simp
  qed
  show ?thesis
  proof (cases "x < 0")
    case True
    have "\<bar>toFixed d x - x\<bar> = \<bar>of_int \<lfloor>- x * 10 ^ d + 1 / 2\<rfloor> / 10 ^ d - (- x)\<bar>"
      using True by (simp add: toFixed_def abs_minus_commute add.commute)
    then show ?thesis using s [of "- x"] by simp
  next
    case False
    then show ?thesis using s [of x] by (simp add: toFixed_def)
  qed
qed

lemma toFixed_rounded_to: "rounded_to d (toFixed d x) x"
proof -
  have "(0::rat) \<le> (\<bar>x\<bar> + 1) / 10 ^ 9"
    by simp
  then show ?thesis
    unfolding rounded_to_def using toFixed_error [of d x] by linarith
qed

lemma unit_interval_draws:
  "list_all (\<lambda>x. 0 \<le> x \<and> x < 1) xs \<Longrightarrow> unit_interval (draws xs)"
  by (simp add: unit_interval_def draws_def list_all_length)

section \<open>The fields of a generated room\<close>

text \<open>
  Capacity, head count (without an average-occupancy parameter), level and energy
  estimate of the room that \<open>generateMockRoomData\<close> returns, in terms of the draws.
\<close>

lemma generateMockRoomData_capacity:
  "capacity (fst (generateMockRoomData hour rnd roomId buildingId envParams i))
     = \<lfloor>rnd i * 40\<rfloor> + 20"
proof (cases "avg_occupancy envParams")
  case None
  then show ?thesis
    by (simp add: generateMockRoomData_def Let_def random_def)
next
  case (Some a)
  then show ?thesis
    by (cases "a = 0") (simp_all add: generateMockRoomData_def Let_def random_def)
qed

lemma generateMockRoomData_occupancy:
  "avg_occupancy envParams = None \<Longrightarrow>
   current_occupancy (fst (generateMockRoomData hour rnd roomId buildingId envParams i))
     = min (\<lfloor>of_int (\<lfloor>rnd i * 40\<rfloor> + 20) * getTimeBasedOccupancy hour
               * (1 / 2 + rnd (i + 1) * (1 / 2))\<rfloor>
            + \<lfloor>rnd (i + 2) * 10 - 5\<rfloor>)
           (\<lfloor>rnd i * 40\<rfloor> + 20)"
  by (simp add: generateMockRoomData_def Let_def random_def)

lemma generateMockRoomData_occupancy_override:
  "avg_occupancy envParams = Some a \<Longrightarrow> a \<noteq> 0 \<Longrightarrow>
   current_occupancy (fst (generateMockRoomData hour rnd roomId buildingId envParams i))
     = min (a + \<lfloor>rnd (i + 1) * 10 - 5\<rfloor>) (\<lfloor>rnd i * 40\<rfloor> + 20)"
  by (simp add: generateMockRoomData_def Let_def random_def)

lemma generateMockRoomData_level:
  "occupancy_level (fst (generateMockRoomData hour rnd roomId buildingId envParams i))
     = (if of_int (current_occupancy
                     (fst (generateMockRoomData hour rnd roomId buildingId envParams i)))
           / of_int (capacity
                       (fst (generateMockRoomData hour rnd roomId buildingId envParams i)))
           * (100 :: rat) > 70
        then ''high''
        else if of_int (current_occupancy
                     (fst (generateMockRoomData hour rnd roomId buildingId envParams i)))
           / of_int (capacity
                       (fst (generateMockRoomData hour rnd roomId buildingId envParams i)))
           * (100 :: rat) > 30
        then ''medium'' else ''low'')"
proof (cases "avg_occupancy envParams")
  case None
  then show ?thesis
    by (simp add: generateMockRoomData_def Let_def random_def)
next
  case (Some a)
  then show ?thesis
    by (cases "a = 0") (simp_all add: generateMockRoomData_def Let_def random_def)
qed

lemma generateMockRoomData_energy:
  "estimated_energy_kw (fst (generateMockRoomData hour rnd roomId buildingId envParams i))
     = toFixed 2
         (baseEnergy buildingId
          * energyMultiplier envParams
              (of_int (current_occupancy
                         (fst (generateMockRoomData hour rnd roomId buildingId envParams i)))
               / of_int (capacity
                           (fst (generateMockRoomData hour rnd roomId buildingId envParams i)))
               * 100)
          * (8 / 10
             + rnd (case avg_occupancy envParams of
                      Some a \<Rightarrow> if a \<noteq> 0 then i + 2 else i + 3
                    | None \<Rightarrow> i + 3)
               * (4 / 10)))"
proof (cases "avg_occupancy envParams")
  case None
  then show ?thesis
    by (simp add: generateMockRoomData_def Let_def random_def eval_nat_numeral)
next
  case (Some a)
  then show ?thesis
    by (cases "a = 0")
       (simp_all add: generateMockRoomData_def Let_def random_def eval_nat_numeral)
qed

section \<open>The fields of a rollup\<close>

lemma buildingSummary_fields:
  "building_id (buildingSummary buildingId numRooms rooms rRec rSav) = buildingId"
  "building_name (buildingSummary buildingId numRooms rooms rRec rSav)
     = (case buildingNames buildingId of
          Some n \<Rightarrow> if n \<noteq> [] then n else toUpperCase buildingId
        | None \<Rightarrow> toUpperCase buildingId)"
  "total_rooms (buildingSummary buildingId numRooms rooms rRec rSav) = numRooms"
  "total_energy_kw (buildingSummary buildingId numRooms rooms rRec rSav)
     = toFixed 2 (sum_list (map (estimated_energy_kw \<circ> snd) rooms))"
  "total_occupancy (buildingSummary buildingId numRooms rooms rRec rSav)
     = sum_list (map (current_occupancy \<circ> snd) rooms)"
  "total_capacity (buildingSummary buildingId numRooms rooms rRec rSav)
     = sum_list (map (capacity \<circ> snd) rooms)"
  "occupancy_rate (buildingSummary buildingId numRooms rooms rRec rSav)
     = (if sum_list (map (capacity \<circ> snd) rooms) > 0
        then toFixed 1
               (of_int (sum_list (map (current_occupancy \<circ> snd) rooms))
                / of_int (sum_list (map (capacity \<circ> snd) rooms)) * 100)
        else 0)"
  "avg_energy_per_room (buildingSummary buildingId numRooms rooms rRec rSav)
     = toFixed 2 (sum_list (map (estimated_energy_kw \<circ> snd) rooms) / of_int numRooms)"
  "building_savings_potential (buildingSummary buildingId numRooms rooms rRec rSav)
     = toFixed 1 (rSav * 20 + 15)"
  "room_states (buildingSummary buildingId numRooms rooms rRec rSav) = rooms"
  by (simp_all add: buildingSummary_def Let_def foldl_add_sum_list toFixed_zero comp_def)

lemma campusSummary_fields:
  "building_states (campusSummary now buildings rWater rSav) = buildings"
  "critical_buildings (campusSummary now buildings rWater rSav)
     = criticalBuildings (map snd buildings)"
  "campus_total_energy_kw (campus_metrics (campusSummary now buildings rWater rSav))
     = toFixed 2 (sum_list (map (total_energy_kw \<circ> snd) buildings))"
  "campus_total_occupancy (campus_metrics (campusSummary now buildings rWater rSav))
     = sum_list (map (total_occupancy \<circ> snd) buildings)"
  "campus_total_capacity (campus_metrics (campusSummary now buildings rWater rSav))
     = sum_list (map (total_capacity \<circ> snd) buildings)"
  "campus_total_rooms (campus_metrics (campusSummary now buildings rWater rSav))
     = sum_list (map (total_rooms \<circ> snd) buildings)"
  "campus_occupancy_rate (campus_metrics (campusSummary now buildings rWater rSav))
     = toFixed 1 (sum_list (map (occupancy_rate \<circ> snd) buildings) / 5)"
  "campus_total_water_lph (campus_metrics (campusSummary now buildings rWater rSav))
     = toFixed 1 (rWater * 150 + 100)"
  "estimated_cost_per_hour (campus_metrics (campusSummary now buildings rWater rSav))
     = toFixed 2 (sum_list (map (total_energy_kw \<circ> snd) buildings) * (12 / 100)
                  + toFixed 1 (rWater * 150 + 100) * (2 / 1000))"
  by (simp_all add: campusSummary_def Let_def foldl_add_sum_list buildingIds_def comp_def)

lemma example_room_fields:
  "current_occupancy (snd (example_room rid occ cap energy)) = occ"
  "capacity (snd (example_room rid occ cap energy)) = cap"
  "estimated_energy_kw (snd (example_room rid occ cap energy)) = energy"
  "estimated_water_lph (snd (example_room rid occ cap energy)) = 2"
  by (simp_all add: example_room_def)

lemmas rollup_eval =
  example_buildings_def buildingSummary_fields example_room_fields buildingNames_def
  toFixed_def floor_rat_simps

section \<open>Occupancy level\<close>

text \<open>
  The room analysis page puts a room in the band of its occupancy ratio, with both
  thresholds inclusive.
\<close>

lemma getOccupancyLevel_bands:
  assumes "cap > 0"
  shows "(getOccupancyLevel occupancy cap = ''high'') = (occupancy / cap \<ge> 7 / 10)"
    and "(getOccupancyLevel occupancy cap = ''medium'')
           = (3 / 10 \<le> occupancy / cap \<and> occupancy / cap < 7 / 10)"
    and "(getOccupancyLevel occupancy cap = ''low'') = (occupancy / cap < 3 / 10)"
  using assms by (auto simp: getOccupancyLevel_def Let_def field_simps)

lemma boundary_room_70_values:
  "capacity boundary_room_70 = 40" "current_occupancy boundary_room_70 = 28"
  by (simp_all add: boundary_room_70_def generateMockRoomData_capacity
        generateMockRoomData_occupancy noEnvParams_def draws_def getTimeBasedOccupancy_def
        floor_rat_simps)

lemma boundary_room_30_values:
  "capacity boundary_room_30 = 40" "current_occupancy boundary_room_30 = 12"
  by (simp_all add: boundary_room_30_def generateMockRoomData_capacity
        generateMockRoomData_occupancy noEnvParams_def draws_def getTimeBasedOccupancy_def
        floor_rat_simps)

text \<open>
  C1. The level is claimed to be \<open>high\<close> from a ratio of exactly 0.70 and \<open>medium\<close> from
  exactly 0.30. The demo generator compares strictly: from legal draws it makes a room
  of 28 in 40 (ratio 0.70) and stores \<open>medium\<close>, and a room of 12 in 40 (ratio 0.30) and
  stores \<open>low\<close>. The room analysis page shows the same two rooms as \<open>high\<close> and
  \<open>medium\<close>.
\<close>

theorem generateMockRoomData_boundary_levels:
  "unit_interval (draws [1 / 2, 95 / 100, 6 / 10])
   \<and> current_occupancy boundary_room_70 = 28 \<and> capacity boundary_room_70 = 40
   \<and> occupancy_level boundary_room_70 = ''medium''
   \<and> getOccupancyLevel 28 40 = ''high''
   \<and> unit_interval (draws [1 / 2, 0, 3 / 10])
   \<and> current_occupancy boundary_room_30 = 12 \<and> capacity boundary_room_30 = 40
   \<and> occupancy_level boundary_room_30 = ''low''
   \<and> getOccupancyLevel 12 40 = ''medium''"
proof -
  have u: "unit_interval (draws [1 / 2, 95 / 100, 6 / 10])"
    "unit_interval (draws [1 / 2, 0, 3 / 10])"
    by (rule unit_interval_draws, simp)+
  have l70: "occupancy_level boundary_room_70 = ''medium''"
    using generateMockRoomData_level
            [of 12 "draws [1 / 2, 95 / 100, 6 / 10]" "''sci-001''" "''sci''" noEnvParams 0,
             folded boundary_room_70_def, unfolded boundary_room_70_values]
    by simp
  have l30: "occupancy_level boundary_room_30 = ''low''"
    using generateMockRoomData_level
            [of 12 "draws [1 / 2, 0, 3 / 10]" "''sci-001''" "''sci''" noEnvParams 0,
             folded boundary_room_30_def, unfolded boundary_room_30_values]
    by simp
  have p: "getOccupancyLevel 28 40 = ''high''" "getOccupancyLevel 12 40 = ''medium''"
    by (simp_all add: getOccupancyLevel_def)
  show ?thesis
    using u l70 l30 p boundary_room_70_values boundary_room_30_values by simp
qed

section \<open>Occupancy of a generated room\<close>

text \<open>
  C8. A generated room is claimed never to have a negative head count. At two o'clock
  at night the draws 0.13, 0.3, 0.2 (a legal sequence) give a room of capacity 25 whose
  average occupancy is 1 and whose jitter is -3: its head count is -2.
\<close>

theorem generateMockRoomData_negative_occupancy:
  "unit_interval (draws [13 / 100, 3 / 10, 2 / 10])
   \<and> capacity night_room = 25 \<and> current_occupancy night_room = - 2"
proof -
  have "unit_interval (draws [13 / 100, 3 / 10, 2 / 10])"
    by (rule unit_interval_draws) simp
  moreover have "capacity night_room = 25" "current_occupancy night_room = - 2"
    by (simp_all add: night_room_def generateMockRoomData_capacity
          generateMockRoomData_occupancy noEnvParams_def draws_def getTimeBasedOccupancy_def
          floor_rat_simps)
  ultimately show ?thesis by simp
qed

text \<open>
  C10. The head count of a generated room never exceeds its capacity, whatever the
  draws, the hour and the environmental parameters, an average occupancy above the
  capacity included.
\<close>

theorem generateMockRoomData_occupancy_le_capacity:
  "current_occupancy (fst (generateMockRoomData hour rnd roomId buildingId envParams i))
     \<le> capacity (fst (generateMockRoomData hour rnd roomId buildingId envParams i))"
proof (cases "avg_occupancy envParams")
  case None
  then show ?thesis
    by (simp add: generateMockRoomData_def Let_def random_def)
next
  case (Some a)
  then show ?thesis
    by (cases "a = 0") (simp_all add: generateMockRoomData_def Let_def random_def)
qed

text \<open>An average occupancy of 100 in a room of capacity 40: the head count is 40.\<close>

theorem generateMockRoomData_occupancy_le_capacity_witness:
  "capacity (fst (generateMockRoomData 12 (\<lambda>_. 1 / 2) ''sci-001'' ''sci''
                      (noEnvParams\<lparr>avg_occupancy := Some 100\<rparr>) 0)) = 40
   \<and> current_occupancy (fst (generateMockRoomData 12 (\<lambda>_. 1 / 2) ''sci-001'' ''sci''
                      (noEnvParams\<lparr>avg_occupancy := Some 100\<rparr>) 0)) \<le> 40
   \<and> current_occupancy (fst (generateMockRoomData 12 (\<lambda>_. 1 / 2) ''sci-001'' ''sci''
                      (noEnvParams\<lparr>avg_occupancy := Some 100\<rparr>) 0)) = 40"
proof -
  have c: "capacity (fst (generateMockRoomData 12 (\<lambda>_. 1 / 2) ''sci-001'' ''sci''
                      (noEnvParams\<lparr>avg_occupancy := Some 100\<rparr>) 0)) = 40"
    by (simp add: generateMockRoomData_capacity)
  have o: "current_occupancy (fst (generateMockRoomData 12 (\<lambda>_. 1 / 2) ''sci-001'' ''sci''
                      (noEnvParams\<lparr>avg_occupancy := Some 100\<rparr>) 0)) = 40"
    by (simp add: generateMockRoomData_occupancy_override [where a = 100] noEnvParams_def)
  show ?thesis
    using generateMockRoomData_occupancy_le_capacity
            [of 12 "\<lambda>_. 1 / 2" "''sci-001''" "''sci''" "noEnvParams\<lparr>avg_occupancy := Some 100\<rparr>" 0]
    by (simp add: c o)
qed

section \<open>Energy estimate of a generated room\<close>

lemma fans_room_values: "capacity fans_room = 56" "current_occupancy fans_room = 41"
  by (simp_all add: fans_room_def fans_env_def generateMockRoomData_capacity
        generateMockRoomData_occupancy noEnvParams_def getTimeBasedOccupancy_def
        floor_rat_simps)

lemma fans_room_energy: "estimated_energy_kw fans_room = 829 / 100"
  using generateMockRoomData_energy
          [of 12 "\<lambda>_. 9 / 10" "''sci-001''" "''sci''" fans_env 0,
           folded fans_room_def, unfolded fans_room_values]
  by (simp add: fans_env_def noEnvParams_def energyMultiplier_def baseEnergy_def toFixed_def
        floor_rat_simps)

text \<open>
  C6, as claimed: the estimate is the base load times the claimed intensity factor,
  up to the jitter. It fails for a room whose fans are on: with every draw 0.9 the
  generator makes a room of 41 in 56 with an estimate of 8.29, and the claimed formula,
  with the jitter factor of that very run, gives 7.54.
\<close>

theorem energy_fans_counterexample:
  "fans_on fans_env = Some True
   \<and> estimated_energy_kw fans_room = 829 / 100
   \<and> toFixed 2 (baseEnergy ''sci''
         * claimed_intensity_factor fans_env
             (of_int (current_occupancy fans_room) / of_int (capacity fans_room))
         * (8 / 10 + (9 / 10) * (4 / 10))) = 377 / 50"
  by (simp add: fans_room_energy fans_room_values fans_env_def noEnvParams_def
        claimed_intensity_factor_def baseEnergy_def toFixed_def floor_rat_simps)

text \<open>The multiplier of the code is the claimed factor, times 1.1 when the fans are on.\<close>

lemma energyMultiplier_claimed:
  "energyMultiplier envParams (ratio * 100)
     = claimed_intensity_factor envParams ratio
       * (if fans_on envParams = Some True then 11 / 10 else 1)"
  by (simp add: energyMultiplier_def claimed_intensity_factor_def Let_def split: option.splits)

text \<open>
  C6, amended: the estimate of a generated room is the base load of its building (3.0
  for an unknown building) times the claimed intensity factor, times 1.1 when the fans
  are on, times the jitter factor \<open>0.8 + 0.4 r\<close>, where \<open>r\<close> is the draw that follows the
  occupancy jitter, rounded to two decimals. The estimate is a function of the hour, the
  parameters and the draws.
\<close>

theorem estimated_energy_formula:
  "rounded_to 2
     (estimated_energy_kw (fst (generateMockRoomData hour rnd roomId buildingId envParams i)))
     (baseEnergy buildingId
      * (claimed_intensity_factor envParams
           (of_int (current_occupancy
                      (fst (generateMockRoomData hour rnd roomId buildingId envParams i)))
            / of_int (capacity
                        (fst (generateMockRoomData hour rnd roomId buildingId envParams i))))
         * (if fans_on envParams = Some True then 11 / 10 else 1))
      * (8 / 10
         + rnd (case avg_occupancy envParams of
                  Some a \<Rightarrow> if a \<noteq> 0 then i + 2 else i + 3
                | None \<Rightarrow> i + 3)
           * (4 / 10)))"
  unfolding generateMockRoomData_energy energyMultiplier_claimed
  by (rule toFixed_rounded_to)

text \<open>
  The room with the fans on: the product is 8.294 and the estimate 8.29.
\<close>

theorem estimated_energy_formula_witness:
  "estimated_energy_kw fans_room = 829 / 100
   \<and> baseEnergy ''sci''
       * (claimed_intensity_factor fans_env
            (of_int (current_occupancy fans_room) / of_int (capacity fans_room))
          * (11 / 10))
       * (8 / 10 + (9 / 10) * (4 / 10)) = 4147 / 500
   \<and> rounded_to 2 (829 / 100) (4147 / 500)"
proof -
  have f: "fans_on fans_env = Some True"
    by (simp add: fans_env_def noEnvParams_def)
  have p: "baseEnergy ''sci''
       * (claimed_intensity_factor fans_env
            (of_int (current_occupancy fans_room) / of_int (capacity fans_room))
          * (11 / 10))
       * (8 / 10 + (9 / 10) * (4 / 10)) = 4147 / 500"
    by (simp add: fans_room_values fans_env_def noEnvParams_def claimed_intensity_factor_def
          baseEnergy_def)
  have d: "rounded_to 2 (estimated_energy_kw fans_room)
             (baseEnergy ''sci''
              * (claimed_intensity_factor fans_env
                   (of_int (current_occupancy fans_room) / of_int (capacity fans_room))
                 * (11 / 10))
              * (8 / 10 + (9 / 10) * (4 / 10)))"
    using estimated_energy_formula
            [of 12 "\<lambda>_. 9 / 10" "''sci-001''" "''sci''" fans_env 0, folded fans_room_def]
    by (simp add: f)
  show ?thesis
    using fans_room_energy p d [unfolded p fans_room_energy] by blast
qed

section \<open>Building rollup\<close>


text \<open>
  C2, as claimed: the building rollup holds the sum of the water estimates of the rooms.
  It does not: the object built for the two rooms of the scenario has no
  \<open>total_water_lph\<close>, and none of its numbers is the sum 4.1 of the two estimates.
\<close>

theorem building_water_counterexample:
  "sum_list (map (estimated_water_lph \<circ> snd) scenario_rooms) = 41 / 10
   \<and> map_of (buildingNumbers (buildingSummary ''sci'' 2 scenario_rooms (1 / 2) (1 / 2)))
        ''total_water_lph'' = None
   \<and> 41 / 10 \<notin> set (map snd
        (buildingNumbers (buildingSummary ''sci'' 2 scenario_rooms (1 / 2) (1 / 2))))"
  by (simp add: buildingNumbers_def buildingSummary_fields scenario_rooms_def toFixed_def
        floor_rat_simps)

text \<open>
  C2, amended: for every building the rollup computes the total energy as the sum of
  the energy estimates of its rooms, rounded to two decimals, and the total occupancy
  and capacity as the sums over its rooms. The occupancy rate is total occupancy over
  total capacity times 100, rounded to one decimal, and it is 0 when the total capacity
  is not positive. The rollup computes no water total.
\<close>

theorem buildingSummary_rollup:
  "total_energy_kw (buildingSummary buildingId numRooms rooms rRec rSav)
     = toFixed 2 (sum_list (map (estimated_energy_kw \<circ> snd) rooms))
   \<and> total_occupancy (buildingSummary buildingId numRooms rooms rRec rSav)
       = sum_list (map (current_occupancy \<circ> snd) rooms)
   \<and> total_capacity (buildingSummary buildingId numRooms rooms rRec rSav)
       = sum_list (map (capacity \<circ> snd) rooms)
   \<and> (if sum_list (map (capacity \<circ> snd) rooms) > 0
       then rounded_to 1
              (occupancy_rate (buildingSummary buildingId numRooms rooms rRec rSav))
              (of_int (sum_list (map (current_occupancy \<circ> snd) rooms))
               / of_int (sum_list (map (capacity \<circ> snd) rooms)) * 100)
       else occupancy_rate (buildingSummary buildingId numRooms rooms rRec rSav) = 0)
   \<and> map_of (buildingNumbers (buildingSummary buildingId numRooms rooms rRec rSav))
        ''total_water_lph'' = None"
proof -
  have r: "occupancy_rate (buildingSummary buildingId numRooms rooms rRec rSav)
             = (if sum_list (map (capacity \<circ> snd) rooms) > 0
                then toFixed 1
                       (of_int (sum_list (map (current_occupancy \<circ> snd) rooms))
                        / of_int (sum_list (map (capacity \<circ> snd) rooms)) * 100)
                else 0)"
    by (rule buildingSummary_fields)
  have o: "total_energy_kw (buildingSummary buildingId numRooms rooms rRec rSav)
             = toFixed 2 (sum_list (map (estimated_energy_kw \<circ> snd) rooms))"
    "total_occupancy (buildingSummary buildingId numRooms rooms rRec rSav)
       = sum_list (map (current_occupancy \<circ> snd) rooms)"
    "total_capacity (buildingSummary buildingId numRooms rooms rRec rSav)
       = sum_list (map (capacity \<circ> snd) rooms)"
    "map_of (buildingNumbers (buildingSummary buildingId numRooms rooms rRec rSav))
        ''total_water_lph'' = None"
    by (simp_all add: buildingSummary_fields buildingNumbers_def)
  show ?thesis
    unfolding r o by (simp add: toFixed_rounded_to)
qed

text \<open>
  The scenario: capacities 30 and 40, occupancies 25 and 5; the quotient is 42.857 and
  the rate 42.9.
\<close>

theorem buildingSummary_rollup_witness:
  "sum_list (map (capacity \<circ> snd) scenario_rooms) = 70
   \<and> sum_list (map (current_occupancy \<circ> snd) scenario_rooms) = 30
   \<and> occupancy_rate (buildingSummary ''sci'' 2 scenario_rooms (1 / 2) (1 / 2)) = 429 / 10
   \<and> rounded_to 1 (429 / 10) (of_int 30 / of_int 70 * 100)
   \<and> total_energy_kw (buildingSummary ''sci'' 2 scenario_rooms (1 / 2) (1 / 2)) = 1017 / 100"
proof -
  have s: "sum_list (map (capacity \<circ> snd) scenario_rooms) = 70"
    "sum_list (map (current_occupancy \<circ> snd) scenario_rooms) = 30"
    "sum_list (map (estimated_energy_kw \<circ> snd) scenario_rooms) = 1017 / 100"
    by (simp_all add: scenario_rooms_def)
  have t: "toFixed 2 (1017 / 100) = 1017 / 100"
    by (simp add: toFixed_def floor_rat_simps)
  have v: "occupancy_rate (buildingSummary ''sci'' 2 scenario_rooms (1 / 2) (1 / 2)) = 429 / 10"
    by (simp add: buildingSummary_fields scenario_rooms_def toFixed_def floor_rat_simps)
  have g: "(0::int) < 70"
    by simp
  note r = buildingSummary_rollup
             [of "''sci''" 2 scenario_rooms "1 / 2" "1 / 2", unfolded s t v, simplified g if_True]
  show ?thesis
    using r s v by blast
qed

text \<open>
  The object that \<open>generateMockBuildingData\<close> returns is the rollup of the rooms it has
  generated, whatever the hour, the draws and the parameters; so what holds of every
  rollup holds of it.
\<close>

lemma generateMockBuildingData_summary:
  "fst (generateMockBuildingData hour rnd buildingId envParams p)
     = buildingSummary buildingId (\<lfloor>rnd p * 8\<rfloor> + 8)
         (fst (genRooms hour rnd buildingId envParams (nat (\<lfloor>rnd p * 8\<rfloor> + 8)) 1 [] (Suc p)))
         (rnd (snd (genRooms hour rnd buildingId envParams
                      (nat (\<lfloor>rnd p * 8\<rfloor> + 8)) 1 [] (Suc p))))
         (rnd (Suc (snd (genRooms hour rnd buildingId envParams
                           (nat (\<lfloor>rnd p * 8\<rfloor> + 8)) 1 [] (Suc p)))))"
  by (simp add: generateMockBuildingData_def Let_def random_def split: prod.splits)

lemma generateMockCampusAnalysis_summary:
  "generateMockCampusAnalysis hour now rnd envParams
     = campusSummary now
         (fst (genBuildings hour rnd envParams buildingIds [] 0))
         (rnd (snd (genBuildings hour rnd envParams buildingIds [] 0)))
         (rnd (Suc (snd (genBuildings hour rnd envParams buildingIds [] 0))))"
  by (simp add: generateMockCampusAnalysis_def Let_def random_def split: prod.splits)

lemma generateMockBuildingData_rollup:
  "total_energy_kw (fst (generateMockBuildingData hour rnd buildingId envParams p))
     = toFixed 2 (sum_list (map (estimated_energy_kw \<circ> snd)
         (room_states (fst (generateMockBuildingData hour rnd buildingId envParams p)))))"
  "total_occupancy (fst (generateMockBuildingData hour rnd buildingId envParams p))
     = sum_list (map (current_occupancy \<circ> snd)
         (room_states (fst (generateMockBuildingData hour rnd buildingId envParams p))))"
  "total_capacity (fst (generateMockBuildingData hour rnd buildingId envParams p))
     = sum_list (map (capacity \<circ> snd)
         (room_states (fst (generateMockBuildingData hour rnd buildingId envParams p))))"
  "building_id (fst (generateMockBuildingData hour rnd buildingId envParams p)) = buildingId"
  unfolding generateMockBuildingData_summary buildingSummary_fields by (rule refl)+

lemma generateMockCampusAnalysis_rollup:
  "critical_buildings (generateMockCampusAnalysis hour now rnd envParams)
     = criticalBuildings
         (map snd (building_states (generateMockCampusAnalysis hour now rnd envParams)))"
  "campus_occupancy_rate (campus_metrics (generateMockCampusAnalysis hour now rnd envParams))
     = toFixed 1
         (sum_list (map (occupancy_rate \<circ> snd)
            (building_states (generateMockCampusAnalysis hour now rnd envParams))) / 5)"
  "campus_total_occupancy (campus_metrics (generateMockCampusAnalysis hour now rnd envParams))
     = sum_list (map (total_occupancy \<circ> snd)
         (building_states (generateMockCampusAnalysis hour now rnd envParams)))"
  "campus_total_capacity (campus_metrics (generateMockCampusAnalysis hour now rnd envParams))
     = sum_list (map (total_capacity \<circ> snd)
         (building_states (generateMockCampusAnalysis hour now rnd envParams)))"
  unfolding generateMockCampusAnalysis_summary campusSummary_fields by (rule refl)+

section \<open>Campus rollup\<close>

text \<open>
  C3, as claimed: a building of high energy and high occupancy is not critical. It is:
  the Science Hall of the example campus has a total energy of 60 kW and an occupancy
  rate of 100, and it is the one building in the critical list.
\<close>

theorem critical_high_occupancy_counterexample:
  "map (\<lambda>(k, b). (k, total_energy_kw b, occupancy_rate b)) example_buildings
     = [(''lib'', 3 / 2, 10), (''sci'', 60, 100), (''eng'', 13 / 2, 100),
        (''dorm'', 3 / 2, 100), (''cafe'', 12, 100)]
   \<and> map cb_building_id
         (critical_buildings
            (campusSummary ''2026-01-01T12:00:00.000Z'' example_buildings (1 / 2) (1 / 2)))
       = [''sci'']"
  by (simp add: campusSummary_fields criticalBuildings_def rollup_eval)

text \<open>
  C3, amended: a building is in the critical list if and only if its total energy
  exceeds 50 kW; its occupancy rate is copied into the entry and not tested.
\<close>

theorem critical_iff_energy_above_50:
  "b \<in> set (map snd buildings) \<Longrightarrow>
     (\<lparr>cb_building_id = building_id b, cb_building_name = building_name b,
       cb_energy_kw = total_energy_kw b, cb_occupancy_rate = occupancy_rate b,
       cb_reason = ''High energy consumption''\<rparr>
        \<in> set (critical_buildings (campusSummary now buildings rWater rSav)))
     = (total_energy_kw b > 50)"
  by (auto simp: campusSummary_def criticalBuildings_def Let_def)

theorem critical_iff_energy_above_50_witness:
  "snd (example_buildings ! 1) \<in> set (map snd example_buildings)
   \<and> total_energy_kw (snd (example_buildings ! 1)) = 60
   \<and> occupancy_rate (snd (example_buildings ! 1)) = 100
   \<and> \<lparr>cb_building_id = ''sci'', cb_building_name = ''Science Hall'',
        cb_energy_kw = 60, cb_occupancy_rate = 100,
        cb_reason = ''High energy consumption''\<rparr>
        \<in> set (critical_buildings
                 (campusSummary ''2026-01-01T12:00:00.000Z'' example_buildings (1 / 2) (1 / 2)))"
proof -
  have m: "snd (example_buildings ! 1) \<in> set (map snd example_buildings)"
    by (simp add: example_buildings_def)
  have v: "building_id (snd (example_buildings ! 1)) = ''sci''"
    "building_name (snd (example_buildings ! 1)) = ''Science Hall''"
    "total_energy_kw (snd (example_buildings ! 1)) = 60"
    "occupancy_rate (snd (example_buildings ! 1)) = 100"
    by (simp_all add: rollup_eval)
  note r = critical_iff_energy_above_50
             [OF m, of "''2026-01-01T12:00:00.000Z''" "1 / 2" "1 / 2", unfolded v]
  have "\<lparr>cb_building_id = ''sci'', cb_building_name = ''Science Hall'',
         cb_energy_kw = 60, cb_occupancy_rate = 100,
         cb_reason = ''High energy consumption''\<rparr>
          \<in> set (critical_buildings
                   (campusSummary ''2026-01-01T12:00:00.000Z'' example_buildings (1 / 2) (1 / 2)))"
    using r by simp
  then show ?thesis
    using m v by simp
qed

text \<open>
  C4, as claimed: the campus occupancy rate is the total occupancy over the total
  capacity times 100, and the campus totals are sums. On the example campus the totals
  are 90 and 180, a rate of 50, and the rollup reports 82, the mean of the five building
  rates; the rooms' water estimates add up to 10 and the rollup reports 175.
\<close>

theorem campus_rate_counterexample:
  "campus_total_occupancy
     (campus_metrics (campusSummary ''2026-01-01T12:00:00.000Z'' example_buildings (1 / 2) (1 / 2)))
     = 90
   \<and> campus_total_capacity
     (campus_metrics (campusSummary ''2026-01-01T12:00:00.000Z'' example_buildings (1 / 2) (1 / 2)))
     = 180
   \<and> campus_occupancy_rate
     (campus_metrics (campusSummary ''2026-01-01T12:00:00.000Z'' example_buildings (1 / 2) (1 / 2)))
     = 82
   \<and> sum_list (map (estimated_water_lph \<circ> snd)
        (concat (map (room_states \<circ> snd) example_buildings))) = 10
   \<and> campus_total_water_lph
     (campus_metrics (campusSummary ''2026-01-01T12:00:00.000Z'' example_buildings (1 / 2) (1 / 2)))
     = 175"
  by (simp add: campusSummary_fields rollup_eval)

text \<open>
  C4, amended: the campus totals of energy (rounded to two decimals), occupancy,
  capacity and rooms are the sums over the buildings; the campus occupancy rate is the
  sum of the building rates divided by the number of building identifiers, rounded to
  one decimal, and not total occupancy over total capacity; the total water is
  \<open>100 + 150 r\<close> for one draw \<open>r\<close>, rounded to one decimal, and not a sum; and the hourly
  cost is the sum of the building energies times 0.12 plus the total water times 0.002,
  rounded to two decimals.
\<close>

theorem campusSummary_rollup:
  "campus_total_energy_kw (campus_metrics (campusSummary now buildings rWater rSav))
     = toFixed 2 (sum_list (map (total_energy_kw \<circ> snd) buildings))
   \<and> campus_total_occupancy (campus_metrics (campusSummary now buildings rWater rSav))
       = sum_list (map (total_occupancy \<circ> snd) buildings)
   \<and> campus_total_capacity (campus_metrics (campusSummary now buildings rWater rSav))
       = sum_list (map (total_capacity \<circ> snd) buildings)
   \<and> campus_total_rooms (campus_metrics (campusSummary now buildings rWater rSav))
       = sum_list (map (total_rooms \<circ> snd) buildings)
   \<and> campus_occupancy_rate (campus_metrics (campusSummary now buildings rWater rSav))
       = toFixed 1 (sum_list (map (occupancy_rate \<circ> snd) buildings) / 5)
   \<and> rounded_to 1
       (campus_total_water_lph (campus_metrics (campusSummary now buildings rWater rSav)))
       (rWater * 150 + 100)
   \<and> rounded_to 2
       (estimated_cost_per_hour (campus_metrics (campusSummary now buildings rWater rSav)))
       (sum_list (map (total_energy_kw \<circ> snd) buildings) * (12 / 100)
        + campus_total_water_lph (campus_metrics (campusSummary now buildings rWater rSav))
          * (2 / 1000))"
proof -
  have w: "campus_total_water_lph (campus_metrics (campusSummary now buildings rWater rSav))
             = toFixed 1 (rWater * 150 + 100)"
    by (rule campusSummary_fields)
  have c: "estimated_cost_per_hour (campus_metrics (campusSummary now buildings rWater rSav))
             = toFixed 2 (sum_list (map (total_energy_kw \<circ> snd) buildings) * (12 / 100)
                          + toFixed 1 (rWater * 150 + 100) * (2 / 1000))"
    by (rule campusSummary_fields)
  have o: "campus_total_energy_kw (campus_metrics (campusSummary now buildings rWater rSav))
             = toFixed 2 (sum_list (map (total_energy_kw \<circ> snd) buildings))"
    "campus_total_occupancy (campus_metrics (campusSummary now buildings rWater rSav))
       = sum_list (map (total_occupancy \<circ> snd) buildings)"
    "campus_total_capacity (campus_metrics (campusSummary now buildings rWater rSav))
       = sum_list (map (total_capacity \<circ> snd) buildings)"
    "campus_total_rooms (campus_metrics (campusSummary now buildings rWater rSav))
       = sum_list (map (total_rooms \<circ> snd) buildings)"
    "campus_occupancy_rate (campus_metrics (campusSummary now buildings rWater rSav))
       = toFixed 1 (sum_list (map (occupancy_rate \<circ> snd) buildings) / 5)"
    by (rule campusSummary_fields)+
  show ?thesis
    unfolding o c w by (simp add: toFixed_rounded_to)
qed

text \<open>
  The example campus: the building rates add up to 410 and the energies to 81.5; the rate
  is 82, the water total 175 and the cost 10.13.
\<close>

theorem campusSummary_rollup_witness:
  "sum_list (map (occupancy_rate \<circ> snd) example_buildings) = 410
   \<and> sum_list (map (total_energy_kw \<circ> snd) example_buildings) = 163 / 2
   \<and> campus_occupancy_rate
       (campus_metrics (campusSummary ''2026-01-01T12:00:00.000Z'' example_buildings (1 / 2) (1 / 2)))
       = 82
   \<and> campus_total_water_lph
       (campus_metrics (campusSummary ''2026-01-01T12:00:00.000Z'' example_buildings (1 / 2) (1 / 2)))
       = 175
   \<and> estimated_cost_per_hour
       (campus_metrics (campusSummary ''2026-01-01T12:00:00.000Z'' example_buildings (1 / 2) (1 / 2)))
       = 1013 / 100
   \<and> rounded_to 2 (1013 / 100) (163 / 2 * (12 / 100) + 175 * (2 / 1000))"
proof -
  have s: "sum_list (map (occupancy_rate \<circ> snd) example_buildings) = 410"
    "sum_list (map (total_energy_kw \<circ> snd) example_buildings) = 163 / 2"
    by (simp_all add: rollup_eval)
  have t: "toFixed 1 (410 / 5) = 82"
    by (simp add: toFixed_def floor_rat_simps)
  have w: "campus_total_water_lph
       (campus_metrics (campusSummary ''2026-01-01T12:00:00.000Z'' example_buildings (1 / 2) (1 / 2)))
       = 175"
    by (simp add: campusSummary_fields toFixed_def floor_rat_simps)
  have c: "estimated_cost_per_hour
       (campus_metrics (campusSummary ''2026-01-01T12:00:00.000Z'' example_buildings (1 / 2) (1 / 2)))
       = 1013 / 100"
    by (simp add: campusSummary_fields s toFixed_def floor_rat_simps)
  note r = campusSummary_rollup
             [of "''2026-01-01T12:00:00.000Z''" example_buildings "1 / 2" "1 / 2",
              unfolded s t w c]
  show ?thesis
    using r s w c by blast
qed

section \<open>Order of the rooms and of the buildings\<close>

text \<open>
  C5, as claimed: feeding the same rooms or buildings in another order gives identical
  totals, the water total among them. The water total of the campus is not a function
  of the buildings at all: it is a fresh draw in every run, so two rollups of the same
  buildings, in the same or in another order, report different water totals (137.5 and
  212.5 for the draws 0.25 and 0.75); and a building has no water total.
\<close>

theorem water_total_order_counterexample:
  "mset (rev example_buildings) = mset example_buildings
   \<and> map_of (buildingNumbers (buildingSummary ''sci'' 2 (rev scenario_rooms) (1 / 2) (1 / 2)))
        ''total_water_lph'' = None
   \<and> campus_total_water_lph
       (campus_metrics
          (campusSummary ''2026-01-01T12:00:00.000Z'' example_buildings (1 / 4) (1 / 2)))
       = 275 / 2
   \<and> campus_total_water_lph
       (campus_metrics
          (campusSummary ''2026-01-01T12:00:01.000Z'' (rev example_buildings) (3 / 4) (1 / 2)))
       = 425 / 2"
  by (simp add: campusSummary_fields buildingNumbers_def toFixed_def floor_rat_simps)

text \<open>
  C5, amended: the totals of energy, occupancy and capacity and the occupancy rate of a
  building do not depend on the order of its rooms, and the campus totals of energy,
  occupancy, capacity and rooms and the campus occupancy rate do not depend on the order
  of its buildings: a permutation of the entries leaves them unchanged. (The average
  energy per room and the cost estimate are decimal roundings of the unrounded
  floating-point sum, which can depend on the order in its last bits; they are left
  out, and so is the water total, which is a draw.)
\<close>

theorem rollup_order_invariant:
  assumes "mset rooms = mset rooms'" and "mset buildings = mset buildings'"
  shows "total_energy_kw (buildingSummary buildingId numRooms rooms rRec rSav)
           = total_energy_kw (buildingSummary buildingId numRooms rooms' rRec rSav)
       \<and> total_occupancy (buildingSummary buildingId numRooms rooms rRec rSav)
           = total_occupancy (buildingSummary buildingId numRooms rooms' rRec rSav)
       \<and> total_capacity (buildingSummary buildingId numRooms rooms rRec rSav)
           = total_capacity (buildingSummary buildingId numRooms rooms' rRec rSav)
       \<and> occupancy_rate (buildingSummary buildingId numRooms rooms rRec rSav)
           = occupancy_rate (buildingSummary buildingId numRooms rooms' rRec rSav)
       \<and> campus_total_energy_kw (campus_metrics (campusSummary now buildings rWater rPot))
           = campus_total_energy_kw (campus_metrics (campusSummary now buildings' rWater rPot))
       \<and> campus_total_occupancy (campus_metrics (campusSummary now buildings rWater rPot))
           = campus_total_occupancy (campus_metrics (campusSummary now buildings' rWater rPot))
       \<and> campus_total_capacity (campus_metrics (campusSummary now buildings rWater rPot))
           = campus_total_capacity (campus_metrics (campusSummary now buildings' rWater rPot))
       \<and> campus_total_rooms (campus_metrics (campusSummary now buildings rWater rPot))
           = campus_total_rooms (campus_metrics (campusSummary now buildings' rWater rPot))
       \<and> campus_occupancy_rate (campus_metrics (campusSummary now buildings rWater rPot))
           = campus_occupancy_rate (campus_metrics (campusSummary now buildings' rWater rPot))"
proof -
  have r: "sum_list (map (f \<circ> snd) rooms) = sum_list (map (f \<circ> snd) rooms')"
    for f :: "RoomData \<Rightarrow> 'a::comm_monoid_add"
    by (rule sum_list_map_mset_cong [OF assms(1)])
  have b: "sum_list (map (f \<circ> snd) buildings) = sum_list (map (f \<circ> snd) buildings')"
    for f :: "BuildingData \<Rightarrow> 'a::comm_monoid_add"
    by (rule sum_list_map_mset_cong [OF assms(2)])
  show ?thesis
    by (simp add: buildingSummary_fields campusSummary_fields r b)
qed

text \<open>The rooms of the scenario and the buildings of the example campus, reversed.\<close>

theorem rollup_order_invariant_witness:
  "mset scenario_rooms = mset (rev scenario_rooms)
   \<and> mset example_buildings = mset (rev example_buildings)
   \<and> occupancy_rate (buildingSummary ''sci'' 2 (rev scenario_rooms) (1 / 2) (1 / 2))
       = occupancy_rate (buildingSummary ''sci'' 2 scenario_rooms (1 / 2) (1 / 2))
   \<and> total_energy_kw (buildingSummary ''sci'' 2 (rev scenario_rooms) (1 / 2) (1 / 2))
       = total_energy_kw (buildingSummary ''sci'' 2 scenario_rooms (1 / 2) (1 / 2))
   \<and> campus_occupancy_rate
       (campus_metrics (campusSummary ''t'' (rev example_buildings) (1 / 2) (1 / 2)))
       = campus_occupancy_rate
           (campus_metrics (campusSummary ''t'' example_buildings (1 / 2) (1 / 2)))
   \<and> campus_total_energy_kw
       (campus_metrics (campusSummary ''t'' (rev example_buildings) (1 / 2) (1 / 2)))
       = campus_total_energy_kw
           (campus_metrics (campusSummary ''t'' example_buildings (1 / 2) (1 / 2)))"
proof -
  have m: "mset scenario_rooms = mset (rev scenario_rooms)"
    "mset example_buildings = mset (rev example_buildings)"
    by simp_all
  show ?thesis
    using rollup_order_invariant
            [OF m, of "''sci''" 2 "1 / 2" "1 / 2" "''t''" "1 / 2" "1 / 2"] m
    by simp
qed

section \<open>Recommendation filter\<close>

text \<open>\<open>includes\<close> is the contiguous-sublist relation.\<close>

lemma str_includes_sublist: "str_includes s t = sublist t s"
  by (induction s) (simp_all add: sublist_Cons_right)

lemma toLowerCase_ascii:
  "list_all (\<lambda>u. u < 128) s \<Longrightarrow> toLowerCase unicodeLower s = map asciiLower s"
  by (simp add: toLowerCase_def)

lemmas filter_eval =
  units_def toLowerCase_def asciiLower_def trim_def isWhiteSpace_def cardRecFilter_def
  panelRecFilter_def roomDetailRecs_def buildingCardRecs_def recommendationPanelRecs_def Let_def

text \<open>
  C7, as claimed: the filter drops the strings under 10 characters and the
  boilerplate, and every other string passes. The recommendation \<open>Lights off\<close> has
  exactly 10 characters, all ASCII (so that the case mapping of Unicode is never
  consulted, and any function can stand for it), and contains no boilerplate phrase; all
  three components drop it.
\<close>

theorem ten_character_counterexample:
  "length (units ''Lights off'') = 10
   \<and> list_all (\<lambda>u. u < 128) (units ''Lights off'')
   \<and> \<not> sublist (units ''no immediate'') (toLowerCase id (units ''Lights off''))
   \<and> \<not> sublist (units ''operating efficiently'') (toLowerCase id (units ''Lights off''))
   \<and> \<not> sublist (units ''monitor'') (toLowerCase id (units ''Lights off''))
   \<and> roomDetailRecs id [units ''Lights off''] = []
   \<and> buildingCardRecs id (Some [units ''Lights off'']) None = []
   \<and> recommendationPanelRecs id [units ''Lights off''] = []"
  by (simp add: filter_eval flip: str_includes_sublist)

text \<open>
  C7, amended: whatever the case mapping of Unicode is, the filter of the building card
  and of the room detail view keeps exactly the strings whose length after trimming is
  more than 10 code units and whose lower-case form contains neither \<open>no immediate\<close>
  nor \<open>operating efficiently\<close>; the filter of the recommendation panel keeps exactly
  those of trimmed length more than 10 whose lower-case form contains none of
  \<open>no immediate actions\<close>, \<open>operating efficiently\<close> and \<open>monitor\<close>. The card then shows
  the first two survivors, the panel the first five. The filters take the list alone:
  nothing else, the outcome of a call included, enters.
\<close>

theorem recommendation_filter_characterisation:
  "roomDetailRecs unicodeLower recs
     = filter (\<lambda>rec. 10 < length (trim rec)
                 \<and> \<not> sublist (units ''no immediate'') (toLowerCase unicodeLower rec)
                 \<and> \<not> sublist (units ''operating efficiently'') (toLowerCase unicodeLower rec))
         recs
   \<and> buildingCardRecs unicodeLower (Some recs) other = take 2 (roomDetailRecs unicodeLower recs)
   \<and> buildingCardRecs unicodeLower None (Some recs) = take 2 (roomDetailRecs unicodeLower recs)
   \<and> recommendationPanelRecs unicodeLower recs
     = take 5 (filter (\<lambda>rec. 10 < length (trim rec)
                 \<and> \<not> sublist (units ''no immediate actions'') (toLowerCase unicodeLower rec)
                 \<and> \<not> sublist (units ''operating efficiently'') (toLowerCase unicodeLower rec)
                 \<and> \<not> sublist (units ''monitor'') (toLowerCase unicodeLower rec)) recs)"
proof -
  have c: "cardRecFilter unicodeLower = (\<lambda>rec. 10 < length (trim rec)
                 \<and> \<not> sublist (units ''no immediate'') (toLowerCase unicodeLower rec)
                 \<and> \<not> sublist (units ''operating efficiently'') (toLowerCase unicodeLower rec))"
    by (auto simp: cardRecFilter_def Let_def str_includes_sublist fun_eq_iff)
  have p: "panelRecFilter unicodeLower = (\<lambda>rec. 10 < length (trim rec)
                 \<and> \<not> sublist (units ''no immediate actions'') (toLowerCase unicodeLower rec)
                 \<and> \<not> sublist (units ''operating efficiently'') (toLowerCase unicodeLower rec)
                 \<and> \<not> sublist (units ''monitor'') (toLowerCase unicodeLower rec))"
    by (auto simp: panelRecFilter_def Let_def str_includes_sublist fun_eq_iff)
  show ?thesis
    unfolding roomDetailRecs_def buildingCardRecs_def recommendationPanelRecs_def c p
    by simp
qed

text \<open>
  A string of at most 10 code units after trimming is dropped whatever it contains and
  whatever the case mapping: so is a warning sign with seven characters of text, nine
  code units in all.
\<close>

lemma short_recommendation_dropped:
  "length (trim rec) \<le> 10 \<Longrightarrow>
     roomDetailRecs unicodeLower [rec] = [] \<and> recommendationPanelRecs unicodeLower [rec] = []"
  by (simp add: roomDetailRecs_def recommendationPanelRecs_def cardRecFilter_def
        panelRecFilter_def Let_def)

lemma warning_sign_recommendation_dropped:
  "length ([0x26A0, 0xFE0F] @ units '' Fix AC'') = 9"
  "roomDetailRecs unicodeLower [[0x26A0, 0xFE0F] @ units '' Fix AC''] = []"
  "recommendationPanelRecs unicodeLower [[0x26A0, 0xFE0F] @ units '' Fix AC''] = []"
proof -
  have t: "length (trim ([0x26A0, 0xFE0F] @ units '' Fix AC'')) \<le> 10"
    by (simp add: trim_def units_def isWhiteSpace_def)
  show "length ([0x26A0, 0xFE0F] @ units '' Fix AC'') = 9"
    by (simp add: units_def)
  show "roomDetailRecs unicodeLower [[0x26A0, 0xFE0F] @ units '' Fix AC''] = []"
    "recommendationPanelRecs unicodeLower [[0x26A0, 0xFE0F] @ units '' Fix AC''] = []"
    using short_recommendation_dropped [OF t] by simp_all
qed

text \<open>
  Three recommendations through the filters: one of eleven characters, one with the
  boilerplate in capitals, and one that only the panel drops.
\<close>

theorem recommendation_filter_characterisation_witness:
  "roomDetailRecs id [units ''Lights off!'', units ''Room is Operating Efficiently'',
                      units ''Monitor temperature closely'']
     = [units ''Lights off!'', units ''Monitor temperature closely'']
   \<and> recommendationPanelRecs id [units ''Lights off!'', units ''Room is Operating Efficiently'',
                      units ''Monitor temperature closely'']
     = [units ''Lights off!'']"
proof -
  have e: "filter (\<lambda>rec. 10 < length (trim rec)
                 \<and> \<not> sublist (units ''no immediate'') (toLowerCase id rec)
                 \<and> \<not> sublist (units ''operating efficiently'') (toLowerCase id rec))
             [units ''Lights off!'', units ''Room is Operating Efficiently'',
              units ''Monitor temperature closely'']
           = [units ''Lights off!'', units ''Monitor temperature closely'']"
    "take 5 (filter (\<lambda>rec. 10 < length (trim rec)
                 \<and> \<not> sublist (units ''no immediate actions'') (toLowerCase id rec)
                 \<and> \<not> sublist (units ''operating efficiently'') (toLowerCase id rec)
                 \<and> \<not> sublist (units ''monitor'') (toLowerCase id rec))
             [units ''Lights off!'', units ''Room is Operating Efficiently'',
              units ''Monitor temperature closely''])
           = [units ''Lights off!'']"
    by (simp_all add: filter_eval flip: str_includes_sublist)
  show ?thesis
    using recommendation_filter_characterisation
            [of id "[units ''Lights off!'', units ''Room is Operating Efficiently'',
                  units ''Monitor temperature closely'']"]
    unfolding e by simp
qed

section \<open>Budget accounting of the recommender\<close>

lemma foldl_recommend_step:
  "foldl (recommend_step summarize boilerplate) st es
     = \<lparr>tokens_remaining = tokens_remaining st - length es,
        calls = calls st @ take (tokens_remaining st) es,
        results = results st
          @ map (\<lambda>e. (e, case summarize e of
                           Some recs \<Rightarrow> post_filter boilerplate recs
                         | None \<Rightarrow> []))
                (take (tokens_remaining st) es)
          @ map (\<lambda>e. (e, [])) (drop (tokens_remaining st) es)\<rparr>"
proof (induction es arbitrary: st)
  case Nil
  show ?case by simp
next
  case (Cons e es)
  let ?step = "recommend_step summarize boilerplate"
  have "foldl ?step st (e # es) = foldl ?step (?step st e) es"
    by simp
  also have "\<dots> = \<lparr>tokens_remaining = tokens_remaining (?step st e) - length es,
        calls = calls (?step st e) @ take (tokens_remaining (?step st e)) es,
        results = results (?step st e)
          @ map (\<lambda>e. (e, case summarize e of
                           Some recs \<Rightarrow> post_filter boilerplate recs
                         | None \<Rightarrow> []))
                (take (tokens_remaining (?step st e)) es)
          @ map (\<lambda>e. (e, [])) (drop (tokens_remaining (?step st e)) es)\<rparr>"
    by (rule Cons.IH)
  also have "\<dots> = \<lparr>tokens_remaining = tokens_remaining st - length (e # es),
        calls = calls st @ take (tokens_remaining st) (e # es),
        results = results st
          @ map (\<lambda>e. (e, case summarize e of
                           Some recs \<Rightarrow> post_filter boilerplate recs
                         | None \<Rightarrow> []))
                (take (tokens_remaining st) (e # es))
          @ map (\<lambda>e. (e, [])) (drop (tokens_remaining st) (e # es))\<rparr>"
    by (cases "tokens_remaining st") (simp_all add: recommend_step_def)
  finally show ?case .
qed

text \<open>
  C9. A run never makes more calls than the call count of its budget level, the low
  level (3 calls) included, however many entities there are. With the high budget and
  no more entities than its call count, every entity gets a call. Every entity gets a
  result; the entities reached after the budget is exhausted get the empty list, and so
  does one whose call fails.
\<close>

theorem recommender_budget_accounting:
  "length (calls (run_recommender medium high level summarize boilerplate es))
     \<le> budget_to_call_count medium high level
   \<and> length (calls (run_recommender medium high BudgetLow summarize boilerplate es)) \<le> 3
   \<and> (length es \<le> high \<longrightarrow>
        calls (run_recommender medium high BudgetHigh summarize boilerplate es) = es)
   \<and> map fst (results (run_recommender medium high level summarize boilerplate es)) = es
   \<and> drop (budget_to_call_count medium high level)
        (results (run_recommender medium high level summarize boilerplate es))
       = map (\<lambda>e. (e, [])) (drop (budget_to_call_count medium high level) es)
   \<and> (\<forall>e r. (e, r) \<in> set (results (run_recommender medium high level summarize boilerplate es))
            \<and> summarize e = None \<longrightarrow> r = [])"
proof -
  let ?n = "budget_to_call_count medium high level"
  let ?f = "\<lambda>e. (e, case summarize e of
                        Some recs \<Rightarrow> post_filter boilerplate recs
                      | None \<Rightarrow> [])"
  have res: "results (run_recommender medium high level summarize boilerplate es)
               = map ?f (take ?n es) @ map (\<lambda>e. (e, [])) (drop ?n es)"
    by (simp add: run_recommender_def foldl_recommend_step)
  have cl: "calls (run_recommender medium high l summarize boilerplate es)
              = take (budget_to_call_count medium high l) es" for l
    by (simp add: run_recommender_def foldl_recommend_step)
  have a: "length (calls (run_recommender medium high level summarize boilerplate es)) \<le> ?n"
    by (simp add: cl)
  have a': "length (calls (run_recommender medium high BudgetLow summarize boilerplate es)) \<le> 3"
    by (simp add: cl)
  have b: "length es \<le> high \<longrightarrow>
        calls (run_recommender medium high BudgetHigh summarize boilerplate es) = es"
    by (simp add: cl)
  have c: "map fst (results (run_recommender medium high level summarize boilerplate es)) = es"
    unfolding res by (simp add: comp_def)
  have d: "drop ?n (results (run_recommender medium high level summarize boilerplate es))
             = map (\<lambda>e. (e, [])) (drop ?n es)"
    unfolding res by (simp add: min_def)
  have e: "r = []"
    if "(e, r) \<in> set (results (run_recommender medium high level summarize boilerplate es))"
      and "summarize e = None" for e r
    using that unfolding res by auto
  show ?thesis
    using a a' b c d e by blast
qed

text \<open>
  The budget exhaustion scenario: thirteen entities. With the low budget the three
  calls go to the campus and the two buildings, and the ten rooms get the empty list;
  with a high budget of 20 calls every entity gets its call.
\<close>

theorem recommender_budget_accounting_witness:
  "length scenario_entities = 13
   \<and> calls (run_recommender 10 20 BudgetLow scenario_summarize scenario_boilerplate
              scenario_entities)
       = [Campus, Building ''sci'', Building ''lib'']
   \<and> calls (run_recommender 10 20 BudgetHigh scenario_summarize scenario_boilerplate
              scenario_entities)
       = scenario_entities
   \<and> scenario_summarize Campus = None
   \<and> (Campus, []) \<in> set (results (run_recommender 10 20 BudgetLow scenario_summarize
                                    scenario_boilerplate scenario_entities))
   \<and> drop 3 (results (run_recommender 10 20 BudgetLow scenario_summarize
                        scenario_boilerplate scenario_entities))
       = map (\<lambda>e. (e, [])) (drop 3 scenario_entities)"
proof -
  have l: "length scenario_entities = 13"
    by code_simp
  have k: "calls (run_recommender 10 20 BudgetLow scenario_summarize scenario_boilerplate
                    scenario_entities)
             = [Campus, Building ''sci'', Building ''lib'']"
    by code_simp
  have m: "(Campus, []) \<in> set (results (run_recommender 10 20 BudgetLow scenario_summarize
                                         scenario_boilerplate scenario_entities))"
    by code_simp
  have n: "scenario_summarize Campus = None"
    by (simp add: scenario_summarize_def)
  note h = recommender_budget_accounting
             [of 10 20 BudgetHigh scenario_summarize scenario_boilerplate scenario_entities]
  note w = recommender_budget_accounting
             [of 10 20 BudgetLow scenario_summarize scenario_boilerplate scenario_entities]
  have "calls (run_recommender 10 20 BudgetHigh scenario_summarize scenario_boilerplate
                 scenario_entities) = scenario_entities"
    using h l by simp
  moreover have "drop 3 (results (run_recommender 10 20 BudgetLow scenario_summarize
                                    scenario_boilerplate scenario_entities))
                   = map (\<lambda>e. (e, [])) (drop 3 scenario_entities)"
    using w by simp
  ultimately show ?thesis
    using l k m n by simp
qed

end
